theory Spec2Isabelle
  imports Main
begin

section \<open>Errors\<close>

text \<open>
  The handlers return Go's pair \<open>(value, error)\<close>. An error is either made by the plugin
  itself with \<open>fmt.Errorf\<close> (it carries its message), or handed back by the client library
  (\<open>api.NewClient\<close>, the list endpoints, \<open>time.Parse\<close>), or it is a run-time panic: of
  a failed type assertion, or of reading a field through a nil pointer.
\<close>

datatype error =
    Errorf string
  | LibraryError string
  | TypeAssertionPanic
  | NilPointerPanic

section \<open>Access levels (utils.go, parseAccessLevel)\<close>

definition parseAccessLevel :: "int \<Rightarrow> string" where
  "parseAccessLevel input =
     (if input = 0 then ''No Permissions''
      else if input = 5 then ''Minimal Access''
      else if input = 10 then ''Guest''
      else if input = 20 then ''Reporter''
      else if input = 30 then ''Developer''
      else if input = 40 then ''Maintainer''
      else if input = 50 then ''Owner''
      else ''No Permissions'')"

section \<open>Values handed to the transform functions\<close>

text \<open>
  \<open>transform.TransformData.Value\<close> is an \<open>interface{}\<close>: it is nil, or it holds a value
  of some dynamic type. The two transforms of the plugin assert one dynamic type each
  (\<open>*api.ISOTime\<close>, \<open>[]*api.IssueAssignee\<close>) and return an \<open>interface{}\<close> again. A Go
  slice is either the nil slice or a sequence of elements: \<open>None\<close> is the nil slice,
  \<open>Some []\<close> the empty slice that is not nil. An element of the assignee slice is a
  pointer, \<open>*api.IssueAssignee\<close>: \<open>None\<close> is the nil pointer, \<open>Some a\<close> points to the
  assignee \<open>a\<close>. The date value of the date transform is taken to be a pointer that is
  not nil: both date columns apply \<open>NullIfZero\<close> before the transform, which turns a nil
  pointer into the nil value.
\<close>

type_synonym 'a slice = "'a list option"

definition len :: "'a slice \<Rightarrow> nat" where
  "len s = (case s of None \<Rightarrow> 0 | Some xs \<Rightarrow> length xs)"

definition elems :: "'a slice \<Rightarrow> 'a list" where
  "elems s = (case s of None \<Rightarrow> [] | Some xs \<Rightarrow> xs)"

text \<open>Go's \<open>append(s, x)\<close>: appending to the nil slice allocates a one-element slice.\<close>

definition append1 :: "'a slice \<Rightarrow> 'a \<Rightarrow> 'a slice" where
  "append1 s x = Some (elems s @ [x])"

record IssueAssignee =
  ID :: int
  Username :: string
  Name :: string

datatype Location = UTC | OtherLocation string

text \<open>A \<open>time.Time\<close>, as the civil date and clock reading it shows in its location.\<close>

record Time =
  Year :: int
  Month :: int
  Day :: int
  Hour :: int
  Minute :: int
  Second :: int
  Nanosecond :: int
  Loc :: Location

datatype Value =
    Nil
  | ISOTimeValue Time
  | AssigneesValue "IssueAssignee option slice"
  | StringsValue "string slice"
  | TimeValue Time

section \<open>The assignee transform (parseAssignees)\<close>

text \<open>
  \<open>var output []string\<close> starts as the nil slice; the loop appends the user name of
  every assignee, in order. \<open>assignee.Username\<close> reads through the pointer without a
  check, so a nil element panics.
\<close>

fun parseAssignees_loop ::
    "IssueAssignee option list \<Rightarrow> string slice \<Rightarrow> error + string slice" where
  "parseAssignees_loop [] output = Inr output"
| "parseAssignees_loop (assignee # rest) output =
     (case assignee of
        None \<Rightarrow> Inl NilPointerPanic
      | Some a \<Rightarrow> parseAssignees_loop rest (append1 output (Username a)))"

definition parseAssignees :: "Value \<Rightarrow> error + Value" where
  "parseAssignees input =
     (case input of
        Nil \<Rightarrow> Inr Nil
      | AssigneesValue assignees \<Rightarrow>
          (case parseAssignees_loop (elems assignees) None of
             Inl panic \<Rightarrow> Inl panic
           | Inr output \<Rightarrow> Inr (StringsValue output))
      | _ \<Rightarrow> Inl TypeAssertionPanic)"

section \<open>The date transform (utils.go, isoTimeTransform)\<close>

text \<open>
  \<open>api.ISOTime\<close> is a \<open>time.Time\<close>; its \<open>String\<close> method is
  \<open>Format("2006-01-02")\<close>, and the transform parses that text again with
  \<open>time.Parse("2006-01-02", x)\<close>. Both belong to Go's library; they are modelled here
  for this one layout, after the library's documented behaviour. \<open>appendInt\<close> writes a
  number in decimal, with a minus sign when negative and zeros up to the width: the year
  with width 4, month and day with width 2.
\<close>

definition digit :: "nat \<Rightarrow> char" where
  "digit k = char_of (48 + k)"

fun digits :: "nat \<Rightarrow> string" where
  "digits n = (if n < 10 then [digit n] else digits (n div 10) @ [digit (n mod 10)])"

declare digits.simps [simp del]

definition appendInt :: "int \<Rightarrow> nat \<Rightarrow> string" where
  "appendInt x width =
     (let ds = digits (nat \<bar>x\<bar>);
          padded = replicate (width - length ds) (CHR ''0'') @ ds
      in if x < 0 then CHR ''-'' # padded else padded)"

definition ISOTime_String :: "Time \<Rightarrow> string" where
  "ISOTime_String t =
     appendInt (Year t) 4 @ ''-'' @ appendInt (Month t) 2 @ ''-'' @ appendInt (Day t) 2"

definition isDigit :: "char \<Rightarrow> bool" where
  "isDigit c = (48 \<le> (of_char c :: nat) \<and> (of_char c :: nat) \<le> 57)"

definition digitVal :: "char \<Rightarrow> int" where
  "digitVal c = int (of_char c) - 48"

definition isLeap :: "int \<Rightarrow> bool" where
  "isLeap year = (year mod 4 = 0 \<and> (year mod 100 \<noteq> 0 \<or> year mod 400 = 0))"

definition daysIn :: "int \<Rightarrow> int \<Rightarrow> int" where
  "daysIn m year =
     (if m = 2 \<and> isLeap year then 29
      else if m = 2 then 28
      else if m = 4 \<or> m = 6 \<or> m = 9 \<or> m = 11 then 30
      else 31)"

text \<open>
  \<open>time.Parse\<close> with the layout \<open>2006-01-02\<close>: four digits, a hyphen, two digits, a
  hyphen, two digits and nothing after them; the month within 1..12 and the day within the
  month, or an error; the result is that date at 00:00:00 in UTC.
\<close>

fun time_Parse_date :: "string \<Rightarrow> error + Time" where
  "time_Parse_date [y1, y2, y3, y4, s1, m1, m2, s2, d1, d2] =
     (if isDigit y1 \<and> isDigit y2 \<and> isDigit y3 \<and> isDigit y4 \<and> s1 = CHR ''-'' \<and>
         isDigit m1 \<and> isDigit m2 \<and> s2 = CHR ''-'' \<and> isDigit d1 \<and> isDigit d2
      then
        (let year = digitVal y1 * 1000 + digitVal y2 * 100 + digitVal y3 * 10 + digitVal y4;
             month = digitVal m1 * 10 + digitVal m2;
             day = digitVal d1 * 10 + digitVal d2
         in if month \<le> 0 \<or> 12 < month then Inl (LibraryError ''month out of range'')
            else if day < 1 \<or> daysIn month year < day
              then Inl (LibraryError ''day out of range'')
            else Inr \<lparr>Year = year, Month = month, Day = day, Hour = 0, Minute = 0,
                      Second = 0, Nanosecond = 0, Loc = UTC\<rparr>)
      else Inl (LibraryError ''cannot parse''))"
| "time_Parse_date _ = Inl (LibraryError ''cannot parse'')"

definition isoTimeTransform :: "Value \<Rightarrow> error + Value" where
  "isoTimeTransform input =
     (case input of
        Nil \<Rightarrow> Inr Nil
      | ISOTimeValue t \<Rightarrow>
          (case time_Parse_date (ISOTime_String t) of
             Inl err \<Rightarrow> Inl err
           | Inr parsed \<Rightarrow> Inr (TimeValue parsed))
      | _ \<Rightarrow> Inl TypeAssertionPanic)"

section \<open>Connection configuration and predicates of a query\<close>

text \<open>
  \<open>gitlabConfig\<close> has two optional fields (Go pointers to strings). \<open>GetConfig\<close> is not
  among the sources at hand; the record below carries what it returns for the connection
  of the query: the config of the connection, or the config with both fields nil when
  there is none.
\<close>

record gitlabConfig =
  BaseUrl :: "string option"
  Token :: "string option"

text \<open>
  A \<open>proto.QualValue\<close> holds one value of several kinds. Each getter returns the value
  when the kind matches and the zero value of its result type otherwise.
  The handlers convert an \<open>int64\<close> with \<open>int(...)\<close>; Go's \<open>int\<close> has 64 bits on the
  platforms the plugin is built for, so the conversion keeps the value.
\<close>

datatype QualValue =
    StringValue string
  | Int64Value int
  | BoolValue bool
  | OtherQualValue

definition GetStringValue :: "QualValue \<Rightarrow> string" where
  "GetStringValue v = (case v of StringValue x \<Rightarrow> x | _ \<Rightarrow> [])"

definition GetInt64Value :: "QualValue \<Rightarrow> int" where
  "GetInt64Value v = (case v of Int64Value n \<Rightarrow> n | _ \<Rightarrow> 0)"

definition GetBoolValue :: "QualValue \<Rightarrow> bool" where
  "GetBoolValue v = (case v of BoolValue b \<Rightarrow> b | _ \<Rightarrow> False)"

text \<open>
  The map of equality predicates, by column name. Looking up a column without a predicate
  gives nil.
\<close>

type_synonym quals = "string \<rightharpoonup> QualValue"

record QueryData =
  Connection :: gitlabConfig
  OptionalKeyColumnQuals :: quals

section \<open>The upstream API\<close>

record ListOptions =
  Page :: int
  PerPage :: int

text \<open>
  The plugin leaves every filter of \<open>api.ListProjectsOptions\<close> unset, so only its embedded
  \<open>ListOptions\<close> is kept. \<open>api.ListIssuesOptions\<close> and \<open>api.ListProjectIssuesOptions\<close>
  are two structs with the same fields where the plugin touches them; an unset (nil)
  field is \<open>None\<close>.
\<close>

type_synonym ListProjectsOptions = ListOptions

record ListIssuesOptions = ListOptions +
  Scope :: "string option"
  AssigneeUsername :: "string option"
  AssigneeID :: "int option"
  AuthorID :: "int option"
  Confidential :: "bool option"
  Search :: "string option"

type_synonym ListProjectIssuesOptions = ListIssuesOptions

record Response =
  NextPage :: int

record Client =
  client_token :: string
  client_baseURL :: string

text \<open>
  What lies outside the plugin: the two environment variables (\<open>os.Getenv\<close> gives the
  empty string for a variable that is not set), the client constructor of the library,
  which may refuse its arguments, and the three list endpoints, each answering a request
  with an error or with a page of items and the number of the next page.
\<close>

record ('p, 'i) environment =
  GITLAB_ADDR :: string
  GITLAB_TOKEN :: string
  NewClient :: "string \<Rightarrow> string \<Rightarrow> error + Client"
  Projects_ListProjects :: "Client \<Rightarrow> ListProjectsOptions \<Rightarrow> error + 'p list \<times> Response"
  Issues_ListIssues :: "Client \<Rightarrow> ListIssuesOptions \<Rightarrow> error + 'i list \<times> Response"
  Issues_ListProjectIssues ::
    "Client \<Rightarrow> int \<Rightarrow> ListProjectIssuesOptions \<Rightarrow> error + 'i list \<times> Response"

text \<open>
  What a handler does besides returning: the upstream calls it issues and the rows it
  hands to \<open>d.StreamListItem\<close>, both in order.
\<close>

datatype call =
    ListProjectsCall ListProjectsOptions
  | ListIssuesCall ListIssuesOptions
  | ListProjectIssuesCall int ListProjectIssuesOptions

record 'r effects =
  calls :: "call list"
  sink :: "'r list"

section \<open>Connection resolution (utils.go)\<close>

definition GitlabCloudApiUrl :: string where
  "GitlabCloudApiUrl = ''https://gitlab.com/api/v4''"

definition baseAddressMessage :: string where
  "baseAddressMessage =
     ''GitLab Base Address must be set either in GITLAB_ADDR env var or in connection config file''"

definition tokenMessage :: string where
  "tokenMessage =
     ''GitLab Private/Personal Access Token must be set either in GITLAB_TOKEN env var or in connection config file''"

text \<open>
  In \<open>connect\<close> and \<open>isGitlabCloud\<close> the test \<open>&gitlabConfig != nil\<close> takes the address
  of a local variable and is always true.
\<close>

definition connect :: "('p, 'i) environment \<Rightarrow> QueryData \<Rightarrow> error + Client" where
  "connect e d =
     (let baseUrl = GITLAB_ADDR e;
          token = GITLAB_TOKEN e;
          gitlabConfig = Connection d;
          baseUrl = (case BaseUrl gitlabConfig of Some u \<Rightarrow> u | None \<Rightarrow> baseUrl);
          token = (case Token gitlabConfig of Some t \<Rightarrow> t | None \<Rightarrow> token)
      in if baseUrl = [] then Inl (Errorf baseAddressMessage)
         else if token = [] then Inl (Errorf tokenMessage)
         else (case NewClient e token baseUrl of
                 Inl err \<Rightarrow> Inl err
               | Inr client \<Rightarrow> Inr client))"

definition isGitlabCloud :: "QueryData \<Rightarrow> bool" where
  "isGitlabCloud d =
     (case BaseUrl (Connection d) of
        Some u \<Rightarrow> if u = GitlabCloudApiUrl then True else False
      | None \<Rightarrow> False)"

text \<open>
  The base address and the token as the specification resolves them: the value of the
  connection config when present, the environment's otherwise.
\<close>

definition spec_resolved_base_address :: "('p, 'i) environment \<Rightarrow> QueryData \<Rightarrow> string" where
  "spec_resolved_base_address e d =
     (case BaseUrl (Connection d) of Some u \<Rightarrow> u | None \<Rightarrow> GITLAB_ADDR e)"

definition spec_resolved_token :: "('p, 'i) environment \<Rightarrow> QueryData \<Rightarrow> string" where
  "spec_resolved_token e d =
     (case Token (Connection d) of Some t \<Rightarrow> t | None \<Rightarrow> GITLAB_TOKEN e)"

section \<open>Translating predicates into upstream options\<close>

text \<open>
  Both translators set an upstream field for each of five columns that has a predicate;
  the block for the \<open>author\<close> column is commented out in the source. The debug logging
  is left out.
\<close>

definition addOptionalIssueQuals :: "ListIssuesOptions \<Rightarrow> quals \<Rightarrow> ListIssuesOptions" where
  "addOptionalIssueQuals opts q =
     (let opts = (case q ''assignee'' of
                    None \<Rightarrow> opts
                  | Some v \<Rightarrow> opts\<lparr>AssigneeUsername := Some (GetStringValue v)\<rparr>);
          opts = (case q ''assignee_id'' of
                    None \<Rightarrow> opts
                  | Some v \<Rightarrow> opts\<lparr>AssigneeID := Some (GetInt64Value v)\<rparr>);
          opts = (case q ''author_id'' of
                    None \<Rightarrow> opts
                  | Some v \<Rightarrow> opts\<lparr>AuthorID := Some (GetInt64Value v)\<rparr>);
          opts = (case q ''confidential'' of
                    None \<Rightarrow> opts
                  | Some v \<Rightarrow> opts\<lparr>Confidential := Some (GetBoolValue v)\<rparr>);
          opts = (case q ''search_string'' of
                    None \<Rightarrow> opts
                  | Some v \<Rightarrow> opts\<lparr>Search := Some (GetStringValue v)\<rparr>)
      in opts)"

definition addOptionalProjectIssueQuals ::
    "ListProjectIssuesOptions \<Rightarrow> quals \<Rightarrow> ListProjectIssuesOptions" where
  "addOptionalProjectIssueQuals opts q =
     (let opts = (case q ''assignee'' of
                    None \<Rightarrow> opts
                  | Some v \<Rightarrow> opts\<lparr>AssigneeUsername := Some (GetStringValue v)\<rparr>);
          opts = (case q ''assignee_id'' of
                    None \<Rightarrow> opts
                  | Some v \<Rightarrow> opts\<lparr>AssigneeID := Some (GetInt64Value v)\<rparr>);
          opts = (case q ''author_id'' of
                    None \<Rightarrow> opts
                  | Some v \<Rightarrow> opts\<lparr>AuthorID := Some (GetInt64Value v)\<rparr>);
          opts = (case q ''confidential'' of
                    None \<Rightarrow> opts
                  | Some v \<Rightarrow> opts\<lparr>Confidential := Some (GetBoolValue v)\<rparr>);
          opts = (case q ''search_string'' of
                    None \<Rightarrow> opts
                  | Some v \<Rightarrow> opts\<lparr>Search := Some (GetStringValue v)\<rparr>)
      in opts)"

section \<open>List handlers\<close>

text \<open>
  A handler returns \<open>(nil, nil)\<close> or \<open>(nil, err)\<close>. Its \<open>for\<close> loop has no bound of its
  own, so the loop functions take fuel, one unit for each iteration: when it runs out
  the result is \<open>None\<close> (the handler is still looping) together with the effects so far.
\<close>

definition StreamListItem :: "'r \<Rightarrow> 'r effects \<Rightarrow> 'r effects" where
  "StreamListItem item s = s\<lparr>sink := sink s @ [item]\<rparr>"

definition upstreamCall :: "call \<Rightarrow> 'r effects \<Rightarrow> 'r effects" where
  "upstreamCall c s = s\<lparr>calls := calls s @ [c]\<rparr>"

fun listProjects_loop ::
    "nat \<Rightarrow> ('p, 'i) environment \<Rightarrow> Client \<Rightarrow> ListProjectsOptions \<Rightarrow> 'p effects \<Rightarrow>
       (error + Value) option \<times> 'p effects" where
  "listProjects_loop 0 e conn opt s = (None, s)"
| "listProjects_loop (Suc fuel) e conn opt s =
     (let s = upstreamCall (ListProjectsCall opt) s in
      case Projects_ListProjects e conn opt of
        Inl err \<Rightarrow> (Some (Inl err), s)
      | Inr (projects, resp) \<Rightarrow>
          (let s = fold StreamListItem projects s in
           if NextPage resp = 0 then (Some (Inr Nil), s)
           else listProjects_loop fuel e conn (opt\<lparr>Page := NextPage resp\<rparr>) s))"

definition listProjects ::
    "nat \<Rightarrow> ('p, 'i) environment \<Rightarrow> QueryData \<Rightarrow> 'p effects \<Rightarrow>
       (error + Value) option \<times> 'p effects" where
  "listProjects fuel e d s =
     (case connect e d of
        Inl err \<Rightarrow> (Some (Inl err), s)
      | Inr conn \<Rightarrow> listProjects_loop fuel e conn \<lparr>Page = 1, PerPage = 50\<rparr> s)"

fun listAllIssues_loop ::
    "nat \<Rightarrow> ('p, 'i) environment \<Rightarrow> Client \<Rightarrow> ListIssuesOptions \<Rightarrow> 'i effects \<Rightarrow>
       (error + Value) option \<times> 'i effects" where
  "listAllIssues_loop 0 e conn opt s = (None, s)"
| "listAllIssues_loop (Suc fuel) e conn opt s =
     (let s = upstreamCall (ListIssuesCall opt) s in
      case Issues_ListIssues e conn opt of
        Inl err \<Rightarrow> (Some (Inl err), s)
      | Inr (issues, resp) \<Rightarrow>
          (let s = fold StreamListItem issues s in
           if NextPage resp = 0 then (Some (Inr Nil), s)
           else listAllIssues_loop fuel e conn (opt\<lparr>Page := NextPage resp\<rparr>) s))"

definition listAllIssues ::
    "nat \<Rightarrow> ('p, 'i) environment \<Rightarrow> QueryData \<Rightarrow> 'i effects \<Rightarrow>
       (error + Value) option \<times> 'i effects" where
  "listAllIssues fuel e d s =
     (let q = OptionalKeyColumnQuals d in
      case connect e d of
        Inl err \<Rightarrow> (Some (Inl err), s)
      | Inr conn \<Rightarrow>
          (let opt = \<lparr>Page = 1, PerPage = 50, Scope = Some ''all'', AssigneeUsername = None,
                      AssigneeID = None, AuthorID = None, Confidential = None, Search = None\<rparr>;
               opt = addOptionalIssueQuals opt q
           in listAllIssues_loop fuel e conn opt s))"

text \<open>The composite literal \<open>api.ListProjectIssuesOptions{}\<close>: every field at its zero value.\<close>

definition emptyListProjectIssuesOptions :: ListProjectIssuesOptions where
  "emptyListProjectIssuesOptions =
     \<lparr>Page = 0, PerPage = 0, Scope = None, AssigneeUsername = None,
      AssigneeID = None, AuthorID = None, Confidential = None, Search = None\<rparr>"

text \<open>
  The loop of \<open>listProjectIssues\<close> keeps \<open>opt\<close> and advances its page, and passes
  \<open>&api.ListProjectIssuesOptions{}\<close> to the endpoint.
\<close>

fun listProjectIssues_loop ::
    "nat \<Rightarrow> ('p, 'i) environment \<Rightarrow> Client \<Rightarrow> int \<Rightarrow> ListProjectIssuesOptions \<Rightarrow> 'i effects \<Rightarrow>
       (error + Value) option \<times> 'i effects" where
  "listProjectIssues_loop 0 e conn project_id opt s = (None, s)"
| "listProjectIssues_loop (Suc fuel) e conn project_id opt s =
     (let s = upstreamCall (ListProjectIssuesCall project_id emptyListProjectIssuesOptions) s in
      case Issues_ListProjectIssues e conn project_id emptyListProjectIssuesOptions of
        Inl err \<Rightarrow> (Some (Inl err), s)
      | Inr (issues, resp) \<Rightarrow>
          (let s = fold StreamListItem issues s in
           if NextPage resp = 0 then (Some (Inr Nil), s)
           else listProjectIssues_loop fuel e conn project_id (opt\<lparr>Page := NextPage resp\<rparr>) s))"

definition listProjectIssues ::
    "nat \<Rightarrow> ('p, 'i) environment \<Rightarrow> QueryData \<Rightarrow> 'i effects \<Rightarrow>
       (error + Value) option \<times> 'i effects" where
  "listProjectIssues fuel e d s =
     (case connect e d of
        Inl err \<Rightarrow> (Some (Inl err), s)
      | Inr conn \<Rightarrow>
          (let opt = \<lparr>Page = 1, PerPage = 50, Scope = Some ''all'', AssigneeUsername = None,
                      AssigneeID = None, AuthorID = None, Confidential = None, Search = None\<rparr>;
               q = OptionalKeyColumnQuals d;
               opt = addOptionalProjectIssueQuals opt q
           in case q ''project_id'' of
                None \<Rightarrow> (Some (Inr Nil), s)
              | Some v \<Rightarrow> listProjectIssues_loop fuel e conn (GetInt64Value v) opt s))"

definition unsupportedQueryMessage :: string where
  "unsupportedQueryMessage =
     ''When using this table with gitlab cloud, 'List' call requires an '=' qual for '' @
     ''one ore more of the following columns:  assignee, assignee_id, author_id, project_id''"

definition listIssues ::
    "nat \<Rightarrow> ('p, 'i) environment \<Rightarrow> QueryData \<Rightarrow> 'i effects \<Rightarrow>
       (error + Value) option \<times> 'i effects" where
  "listIssues fuel e d s =
     (let q = OptionalKeyColumnQuals d in
      if q ''assignee'' = None \<and> q ''assignee_id'' = None \<and> q ''author_id'' = None \<and>
         q ''project_id'' = None \<and> isGitlabCloud d
      then (Some (Inl (Errorf unsupportedQueryMessage)), s)
      else if q ''project_id'' \<noteq> None then listProjectIssues fuel e d s
      else listAllIssues fuel e d s)"

section \<open>Observers and example inputs\<close>

definition isListIssuesCall :: "call \<Rightarrow> bool" where
  "isListIssuesCall c = (case c of ListIssuesCall opts \<Rightarrow> True | _ \<Rightarrow> False)"

text \<open>
  The pages an endpoint serves to a paging loop that starts with the request \<open>opt\<close>:
  each page is answered without error with its items and the number of the next page, the
  next request differs from the last in the page number only, and the last page, and no
  page before it, names 0 as the next one. \<open>requested\<close> lists the requests of such a run.
\<close>

fun served ::
    "('z ListOptions_scheme \<Rightarrow> error + 'a list \<times> Response) \<Rightarrow> 'z ListOptions_scheme \<Rightarrow>
       ('a list \<times> int) list \<Rightarrow> bool" where
  "served fetch opt [] = False"
| "served fetch opt ((items, nxt) # rest) =
     (fetch opt = Inr (items, \<lparr>NextPage = nxt\<rparr>) \<and>
      (if rest = [] then nxt = 0 else nxt \<noteq> 0 \<and> served fetch (opt\<lparr>Page := nxt\<rparr>) rest))"

fun requested ::
    "'z ListOptions_scheme \<Rightarrow> ('a list \<times> int) list \<Rightarrow> 'z ListOptions_scheme list" where
  "requested opt [] = []"
| "requested opt ((items, nxt) # rest) = opt # requested (opt\<lparr>Page := nxt\<rparr>) rest"

text \<open>
  An upstream with three pages, 1 to 2, 2 to 3 and 3 to 0. A request that names no page
  (page 0, which the client library leaves out of the query) is answered with the first
  page, as the upstream API does.
\<close>

definition three_pages :: "int \<Rightarrow> error + string list \<times> Response" where
  "three_pages page =
     (if page \<le> 1 then Inr ([''a'', ''b''], \<lparr>NextPage = 2\<rparr>)
      else if page = 2 then Inr ([''c''], \<lparr>NextPage = 3\<rparr>)
      else Inr ([''d'', ''e''], \<lparr>NextPage = 0\<rparr>))"

text \<open>
  A client constructor that refuses the base address \<open>:\<close>, which has no protocol scheme,
  and accepts every other one.
\<close>

definition exampleNewClient :: "string \<Rightarrow> string \<Rightarrow> error + Client" where
  "exampleNewClient token baseUrl =
     (if baseUrl = '':'' then Inl (LibraryError ''missing protocol scheme'')
      else Inr \<lparr>client_token = token, client_baseURL = baseUrl\<rparr>)"

definition example_environment :: "string \<Rightarrow> (string, string) environment" where
  "example_environment addr =
     \<lparr>GITLAB_ADDR = addr, GITLAB_TOKEN = ''glpat-1'',
      NewClient = exampleNewClient,
      Projects_ListProjects = (\<lambda>conn opt. three_pages (Page opt)),
      Issues_ListIssues = (\<lambda>conn opt. three_pages (Page opt)),
      Issues_ListProjectIssues = (\<lambda>conn project_id opt. three_pages (Page opt))\<rparr>"

text \<open>A query on a connection without a config, with the given predicates.\<close>

definition example_query :: "quals \<Rightarrow> QueryData" where
  "example_query q =
     \<lparr>Connection = \<lparr>BaseUrl = None, Token = None\<rparr>, OptionalKeyColumnQuals = q\<rparr>"

definition no_effects :: "string effects" where
  "no_effects = \<lparr>calls = [], sink = []\<rparr>"

section \<open>Theorems: transforms\<close>

lemma of_char_digit: "k < 10 \<Longrightarrow> (of_char (digit k) :: nat) = 48 + k"
  by (simp add: digit_def of_char_of)

lemma digit_0: "digit 0 = CHR ''0''"
proof -
  have "char_of (of_char (CHR ''0'') :: nat) = CHR ''0''" by (rule char_of_char)
  then show ?thesis by (simp add: digit_def)
qed

lemma digit_props:
  assumes "k < 10"
  shows "isDigit (digit k)" "digitVal (digit k) = int k" "digit k \<noteq> CHR ''-''"
proof -
  show "isDigit (digit k)" "digitVal (digit k) = int k"
    using assms by (simp_all add: isDigit_def digitVal_def of_char_digit)
  have "(of_char (digit k) :: nat) \<noteq> of_char (CHR ''-'')"
    using assms by (simp add: of_char_digit)
  then show "digit k \<noteq> CHR ''-''" by auto
qed

lemma digits_1: "n < 10 \<Longrightarrow> digits n = [digit n]"
  by (simp add: digits.simps)

lemma digits_2: "10 \<le> n \<Longrightarrow> n < 100 \<Longrightarrow> digits n = [digit (n div 10), digit (n mod 10)]"
  by (subst digits.simps) (simp add: digits_1)

lemma digits_3: "100 \<le> n \<Longrightarrow> n < 1000 \<Longrightarrow>
  digits n = [digit (n div 100), digit (n div 10 mod 10), digit (n mod 10)]"
  by (subst digits.simps) (simp add: digits_2 div_mult2_eq[symmetric])

lemma digits_4: "1000 \<le> n \<Longrightarrow> n < 10000 \<Longrightarrow>
  digits n = [digit (n div 1000), digit (n div 100 mod 10), digit (n div 10 mod 10), digit (n mod 10)]"
  by (subst digits.simps) (simp add: digits_3 div_mult2_eq[symmetric])

lemma pad2: "n < 100 \<Longrightarrow> appendInt (int n) 2 = [digit (n div 10), digit (n mod 10)]"
  by (cases "n < 10") (simp_all add: appendInt_def digits_1 digits_2 digit_0)

lemma pad4: "n < 10000 \<Longrightarrow> appendInt (int n) 4 =
   [digit (n div 1000), digit (n div 100 mod 10), digit (n div 10 mod 10), digit (n mod 10)]"
proof -
  assume n: "n < 10000"
  consider "n < 10" | "10 \<le> n" "n < 100" | "100 \<le> n" "n < 1000" | "1000 \<le> n"
    by linarith
  then show ?thesis
  proof cases
    case 1 then show ?thesis by (simp add: appendInt_def digits_1 digit_0 numeral_3_eq_3 numeral_2_eq_2)
  next
    case 2 then show ?thesis by (simp add: appendInt_def digits_2 digit_0 numeral_3_eq_3 numeral_2_eq_2)
  next
    case 3 then show ?thesis by (simp add: appendInt_def digits_3 digit_0 numeral_3_eq_3 numeral_2_eq_2)
  next
    case 4 then show ?thesis using n by (simp add: appendInt_def digits_4 digit_0 numeral_3_eq_3 numeral_2_eq_2)
  qed
qed


lemma recompose2: "int (n div 10) * 10 + int (n mod 10) = int n"
proof -
  have "n div 10 * 10 + n mod 10 = n" by simp
  then have "int (n div 10 * 10 + n mod 10) = int n" by (rule arg_cong)
  then show ?thesis by (simp only: of_nat_add of_nat_mult of_nat_numeral)
qed

lemma recompose4:
  "int (n div 1000) * 1000 + int (n div 100 mod 10) * 100 + int (n div 10 mod 10) * 10 + int (n mod 10) = int n"
proof -
  define a where "a = n div 1000"
  define b where "b = n div 100 mod 10"
  define c where "c = n div 10 mod 10"
  define d where "d = n mod 10"
  define q1 where "q1 = n div 10"
  define q2 where "q2 = n div 100"
  have e1: "n = q1 * 10 + d" by (simp add: q1_def d_def)
  have "n div 100 = n div 10 div 10" by (simp add: div_mult2_eq [symmetric])
  then have e2: "q1 = q2 * 10 + c" by (simp add: q1_def q2_def c_def)
  have "n div 1000 = n div 100 div 10" by (simp add: div_mult2_eq [symmetric])
  then have "q2 = a * 10 + q2 mod 10" by (simp add: q2_def a_def)
  then have e3: "q2 = a * 10 + b" by (simp add: q2_def b_def)
  have "n = a * 1000 + b * 100 + c * 10 + d"
    unfolding e3 [symmetric] using e1 e2 e3 by linarith 
  then have "int n = int (a * 1000 + b * 100 + c * 10 + d)" by (rule arg_cong)
  then show ?thesis
    unfolding a_def [symmetric] b_def [symmetric] c_def [symmetric] d_def [symmetric]
    by (simp only: of_nat_add of_nat_mult of_nat_numeral)
qed

lemma time_Parse_date_String:
  assumes "0 \<le> Year t" "Year t \<le> 9999" "1 \<le> Month t" "Month t \<le> 12"
    "1 \<le> Day t" "Day t \<le> daysIn (Month t) (Year t)"
  shows "time_Parse_date (ISOTime_String t) =
     Inr \<lparr>Year = Year t, Month = Month t, Day = Day t, Hour = 0, Minute = 0,
                      Second = 0, Nanosecond = 0, Loc = UTC\<rparr>"
proof -
  define y where "y = nat (Year t)"
  define m where "m = nat (Month t)"
  define d where "d = nat (Day t)"
  have dle: "daysIn (Month t) (Year t) \<le> 31"
    by (simp add: daysIn_def)
  have y: "Year t = int y" "y < 10000" using assms(1,2) by (simp_all add: y_def)
  have m: "Month t = int m" "m < 100" using assms(3,4) by (simp_all add: m_def)
  have d: "Day t = int d" "d < 100" using assms(5,6) dle by (simp_all add: d_def)
  have s: "ISOTime_String t =
      [digit (y div 1000), digit (y div 100 mod 10), digit (y div 10 mod 10), digit (y mod 10),
       CHR ''-'', digit (m div 10), digit (m mod 10), CHR ''-'', digit (d div 10), digit (d mod 10)]"
    using y m d by (simp add: ISOTime_String_def pad4 pad2)
  have lt: "y div 1000 < 10" "y div 100 mod 10 < 10" "y div 10 mod 10 < 10" "y mod 10 < 10"
      "m div 10 < 10" "m mod 10 < 10" "d div 10 < 10" "d mod 10 < 10"
    using y(2) m(2) d(2) by simp_all
  show ?thesis
    using assms y(1) m(1) d(1)
    by (simp add: s digit_props lt recompose4 recompose2 Let_def)
qed

lemma parseAssignees_loop_eq:
  "parseAssignees_loop (map Some xs) out =
     Inr (if xs = [] then out else Some (elems out @ map Username xs))"
  by (induction xs arbitrary: out) (auto simp: append1_def elems_def)

lemma parseAssignees_loop_nil:
  "None \<in> set ys \<Longrightarrow> parseAssignees_loop ys out = Inl NilPointerPanic"
  by (induction ys arbitrary: out) (auto split: option.splits)

text \<open>
  C8. A null input gives a null output and no error. An input holding a valid date (a
  year of four digits, a month within 1..12, a day within the month) is printed as the
  date-only text and parsed again: the result is that date at midnight in UTC, whatever
  clock reading and location the input had. The text handed to the parser is never empty.
\<close>

theorem isoTimeTransform_null_and_date:
  "isoTimeTransform Nil = Inr Nil \<and>
   ISOTime_String t \<noteq> [] \<and>
   (0 \<le> Year t \<and> Year t \<le> 9999 \<and> 1 \<le> Month t \<and> Month t \<le> 12 \<and>
    1 \<le> Day t \<and> Day t \<le> daysIn (Month t) (Year t) \<longrightarrow>
      isoTimeTransform (ISOTimeValue t) =
        Inr (TimeValue \<lparr>Year = Year t, Month = Month t, Day = Day t, Hour = 0, Minute = 0,
                         Second = 0, Nanosecond = 0, Loc = UTC\<rparr>))"
  by (simp add: isoTimeTransform_def time_Parse_date_String) (simp add: ISOTime_String_def)

theorem isoTimeTransform_null_and_date_witness:
  "daysIn 2 2024 = 29 \<and>
   isoTimeTransform (ISOTimeValue \<lparr>Year = 2024, Month = 2, Day = 29, Hour = 17, Minute = 30,
                         Second = 5, Nanosecond = 0, Loc = OtherLocation ''Europe/Paris''\<rparr>) =
     Inr (TimeValue \<lparr>Year = 2024, Month = 2, Day = 29, Hour = 0, Minute = 0,
                         Second = 0, Nanosecond = 0, Loc = UTC\<rparr>)"
  using isoTimeTransform_null_and_date
    [of "\<lparr>Year = 2024, Month = 2, Day = 29, Hour = 17, Minute = 30,
          Second = 5, Nanosecond = 0, Loc = OtherLocation ''Europe/Paris''\<rparr>"]
  by (simp add: daysIn_def isLeap_def)

text \<open>
  C9. For every integer the access-level transform returns the label of the table:
  0, 5, 10, 20, 30, 40 and 50 give No Permissions, Minimal Access, Guest, Reporter,
  Developer, Maintainer and Owner, and every other integer gives No Permissions. The
  function returns a string only, so there is no error it could produce.
\<close>

theorem parseAccessLevel_table:
  "parseAccessLevel 0 = ''No Permissions'' \<and>
   parseAccessLevel 5 = ''Minimal Access'' \<and>
   parseAccessLevel 10 = ''Guest'' \<and>
   parseAccessLevel 20 = ''Reporter'' \<and>
   parseAccessLevel 30 = ''Developer'' \<and>
   parseAccessLevel 40 = ''Maintainer'' \<and>
   parseAccessLevel 50 = ''Owner'' \<and>
   (\<forall>n. n \<notin> {0, 5, 10, 20, 30, 40, 50} \<longrightarrow> parseAccessLevel n = ''No Permissions'')"
  by (simp add: parseAccessLevel_def)

theorem parseAccessLevel_table_witness:
  "(999::int) \<notin> {0, 5, 10, 20, 30, 40, 50} \<and> parseAccessLevel 999 = ''No Permissions''"
  using parseAccessLevel_table by simp

text \<open>
  C10, as the code has it. An assignee slice of length zero that is not the nil interface
  (the nil slice of the list type, or an empty slice) gives the nil string slice, not an
  empty one. A slice whose elements are all non-nil pointers gives a value and no error:
  the nil string slice when it has no element, the user names in order otherwise. A slice
  with a nil element panics.
\<close>

theorem parseAssignees_zero_length:
  "(len assignees = 0 \<longrightarrow>
      parseAssignees (AssigneesValue assignees) = Inr (StringsValue None) \<and>
      parseAssignees (AssigneesValue assignees) \<noteq> Inr (StringsValue (Some []))) \<and>
   (elems assignees = map Some xs \<longrightarrow>
      parseAssignees (AssigneesValue assignees) =
        Inr (StringsValue (if len assignees = 0 then None else Some (map Username xs)))) \<and>
   (None \<in> set (elems assignees) \<longrightarrow>
      parseAssignees (AssigneesValue assignees) = Inl NilPointerPanic)"
proof -
  have zero: "parseAssignees (AssigneesValue assignees) = Inr (StringsValue None)"
    if "len assignees = 0"
    using that by (auto simp: parseAssignees_def len_def elems_def split: option.splits)
  have some: "parseAssignees (AssigneesValue assignees) =
      Inr (StringsValue (if len assignees = 0 then None else Some (map Username xs)))"
    if e: "elems assignees = map Some xs"
  proof -
    have "len assignees = length xs"
      using e by (auto simp: len_def elems_def split: option.splits)
    moreover have "elems (None :: string slice) = []"
      by (simp add: elems_def)
    ultimately show ?thesis
      by (simp add: parseAssignees_def e parseAssignees_loop_eq)
  qed
  have nil: "parseAssignees (AssigneesValue assignees) = Inl NilPointerPanic"
    if "None \<in> set (elems assignees)"
    using that by (simp add: parseAssignees_def parseAssignees_loop_nil)
  show ?thesis using zero some nil by simp
qed

theorem parseAssignees_zero_length_witness:
  "len (Some ([] :: IssueAssignee option list)) = 0 \<and>
   parseAssignees (AssigneesValue (Some [])) = Inr (StringsValue None) \<and>
   parseAssignees (AssigneesValue (Some [])) \<noteq> Inr (StringsValue (Some [])) \<and>
   len (None :: IssueAssignee option slice) = 0 \<and>
   parseAssignees (AssigneesValue None) = Inr (StringsValue None) \<and>
   parseAssignees
     (AssigneesValue (Some [Some \<lparr>ID = 1, Username = ''ada'', Name = ''Ada''\<rparr>,
                            Some \<lparr>ID = 2, Username = ''bob'', Name = ''Bob''\<rparr>])) =
     Inr (StringsValue (Some [''ada'', ''bob''])) \<and>
   parseAssignees
     (AssigneesValue (Some [Some \<lparr>ID = 1, Username = ''ada'', Name = ''Ada''\<rparr>, None])) =
     Inl NilPointerPanic"
  using parseAssignees_zero_length [of "Some []" "[]"]
    parseAssignees_zero_length [of None "[]"]
    parseAssignees_zero_length
      [of "Some [Some \<lparr>ID = 1, Username = ''ada'', Name = ''Ada''\<rparr>,
                 Some \<lparr>ID = 2, Username = ''bob'', Name = ''Bob''\<rparr>]"
          "[\<lparr>ID = 1, Username = ''ada'', Name = ''Ada''\<rparr>,
            \<lparr>ID = 2, Username = ''bob'', Name = ''Bob''\<rparr>]"]
    parseAssignees_zero_length
      [of "Some [Some \<lparr>ID = 1, Username = ''ada'', Name = ''Ada''\<rparr>, None]" "[]"]
  by (simp add: len_def elems_def)

text \<open>
  C10 as stated fails where it promises a return without error for every input of the
  list type: a slice of the list type with one element, the nil pointer, makes the
  transform panic.
\<close>

theorem parseAssignees_nil_element:
  "parseAssignees (AssigneesValue (Some [None])) = Inl NilPointerPanic"
  by (simp add: parseAssignees_def elems_def)

section \<open>Theorems: connection resolution\<close>

lemma messages_differ: "baseAddressMessage \<noteq> tokenMessage"
  by (simp add: baseAddressMessage_def tokenMessage_def)

text \<open>
  C6, as the code has it. The base address and the token are each taken from the
  connection config when the field is present and from the environment otherwise. An
  empty base address fails with the base-address message; otherwise an empty token fails
  with the token message, which is a different one; otherwise both are handed to the
  client constructor of the library and its outcome is returned: the client it builds,
  or its error when it refuses the base address. None of the three list endpoints is
  consulted: the outcome is the same whatever they are.
\<close>

theorem connect_resolution:
  "(spec_resolved_base_address e d = [] \<longrightarrow> connect e d = Inl (Errorf baseAddressMessage)) \<and>
   (spec_resolved_base_address e d \<noteq> [] \<and> spec_resolved_token e d = [] \<longrightarrow>
      connect e d = Inl (Errorf tokenMessage)) \<and>
   (spec_resolved_base_address e d \<noteq> [] \<and> spec_resolved_token e d \<noteq> [] \<longrightarrow>
      connect e d = NewClient e (spec_resolved_token e d) (spec_resolved_base_address e d)) \<and>
   baseAddressMessage \<noteq> tokenMessage \<and>
   connect (e\<lparr>Projects_ListProjects := lp, Issues_ListIssues := li,
              Issues_ListProjectIssues := lpi\<rparr>) d = connect e d"
proof -
  have same: "(case x of Inl err \<Rightarrow> Inl err | Inr client \<Rightarrow> Inr client) = x"
    for x :: "error + Client"
    by (cases x) simp_all
  have c: "connect e d =
      (if spec_resolved_base_address e d = [] then Inl (Errorf baseAddressMessage)
       else if spec_resolved_token e d = [] then Inl (Errorf tokenMessage)
       else NewClient e (spec_resolved_token e d) (spec_resolved_base_address e d))" for e :: "('a, 'b) environment"
    by (simp add: connect_def spec_resolved_base_address_def spec_resolved_token_def Let_def same)
  have indep: "connect (e\<lparr>Projects_ListProjects := lp, Issues_ListIssues := li,
              Issues_ListProjectIssues := lpi\<rparr>) d = connect e d"
  proof -
    have "spec_resolved_base_address (e\<lparr>Projects_ListProjects := lp, Issues_ListIssues := li,
              Issues_ListProjectIssues := lpi\<rparr>) d = spec_resolved_base_address e d"
      by (simp add: spec_resolved_base_address_def split: option.splits)
    moreover have "spec_resolved_token (e\<lparr>Projects_ListProjects := lp, Issues_ListIssues := li,
              Issues_ListProjectIssues := lpi\<rparr>) d = spec_resolved_token e d"
      by (simp add: spec_resolved_token_def split: option.splits)
    ultimately show ?thesis by (simp add: c)
  qed
  show ?thesis
    using indep by (simp add: c messages_differ)
qed

theorem connect_resolution_witness:
  "spec_resolved_base_address (example_environment []) (example_query Map.empty) = [] \<and>
   connect (example_environment []) (example_query Map.empty) = Inl (Errorf baseAddressMessage) \<and>
   spec_resolved_base_address (example_environment ''https://other.example.com'')
     \<lparr>Connection = \<lparr>BaseUrl = Some ''https://gitlab.example.com'', Token = Some []\<rparr>,
      OptionalKeyColumnQuals = Map.empty\<rparr> = ''https://gitlab.example.com'' \<and>
   spec_resolved_token (example_environment ''https://other.example.com'')
     \<lparr>Connection = \<lparr>BaseUrl = Some ''https://gitlab.example.com'', Token = Some []\<rparr>,
      OptionalKeyColumnQuals = Map.empty\<rparr> = [] \<and>
   connect (example_environment ''https://other.example.com'')
     \<lparr>Connection = \<lparr>BaseUrl = Some ''https://gitlab.example.com'', Token = Some []\<rparr>,
      OptionalKeyColumnQuals = Map.empty\<rparr> = Inl (Errorf tokenMessage) \<and>
   spec_resolved_token (example_environment ''https://other.example.com'')
     \<lparr>Connection = \<lparr>BaseUrl = Some ''https://gitlab.example.com'', Token = None\<rparr>,
      OptionalKeyColumnQuals = Map.empty\<rparr> = ''glpat-1'' \<and>
   connect (example_environment ''https://other.example.com'')
     \<lparr>Connection = \<lparr>BaseUrl = Some ''https://gitlab.example.com'', Token = None\<rparr>,
      OptionalKeyColumnQuals = Map.empty\<rparr> =
     Inr \<lparr>client_token = ''glpat-1'', client_baseURL = ''https://gitlab.example.com''\<rparr>"
  using connect_resolution [of "example_environment []" "example_query Map.empty"]
    connect_resolution [of "example_environment ''https://other.example.com''"
      "\<lparr>Connection = \<lparr>BaseUrl = Some ''https://gitlab.example.com'', Token = Some []\<rparr>,
        OptionalKeyColumnQuals = Map.empty\<rparr>"]
    connect_resolution [of "example_environment ''https://other.example.com''"
      "\<lparr>Connection = \<lparr>BaseUrl = Some ''https://gitlab.example.com'', Token = None\<rparr>,
        OptionalKeyColumnQuals = Map.empty\<rparr>"]
  by (simp add: spec_resolved_base_address_def spec_resolved_token_def
      example_environment_def example_query_def exampleNewClient_def)

text \<open>
  C6 as stated fails where it promises success for every non-empty base address and
  token: here both are non-empty, the constructor refuses the base address, and
  \<open>connect\<close> returns the constructor's error.
\<close>

theorem connect_rejected_by_constructor:
  "spec_resolved_base_address
     \<lparr>GITLAB_ADDR = '':'', GITLAB_TOKEN = ''glpat-1'',
      NewClient = (\<lambda>token baseUrl. if baseUrl = '':'' then Inl (LibraryError ''missing protocol scheme'')
                                      else Inr \<lparr>client_token = token, client_baseURL = baseUrl\<rparr>),
      Projects_ListProjects = (\<lambda>conn opt. Inr ([] :: string list, \<lparr>NextPage = 0\<rparr>)),
      Issues_ListIssues = (\<lambda>conn opt. Inr ([] :: string list, \<lparr>NextPage = 0\<rparr>)),
      Issues_ListProjectIssues = (\<lambda>conn pid opt. Inr ([], \<lparr>NextPage = 0\<rparr>))\<rparr>
     \<lparr>Connection = \<lparr>BaseUrl = None, Token = None\<rparr>, OptionalKeyColumnQuals = Map.empty\<rparr> \<noteq> [] \<and>
   spec_resolved_token
     \<lparr>GITLAB_ADDR = '':'', GITLAB_TOKEN = ''glpat-1'',
      NewClient = (\<lambda>token baseUrl. if baseUrl = '':'' then Inl (LibraryError ''missing protocol scheme'')
                                      else Inr \<lparr>client_token = token, client_baseURL = baseUrl\<rparr>),
      Projects_ListProjects = (\<lambda>conn opt. Inr ([] :: string list, \<lparr>NextPage = 0\<rparr>)),
      Issues_ListIssues = (\<lambda>conn opt. Inr ([] :: string list, \<lparr>NextPage = 0\<rparr>)),
      Issues_ListProjectIssues = (\<lambda>conn pid opt. Inr ([], \<lparr>NextPage = 0\<rparr>))\<rparr>
     \<lparr>Connection = \<lparr>BaseUrl = None, Token = None\<rparr>, OptionalKeyColumnQuals = Map.empty\<rparr> \<noteq> [] \<and>
   connect
     \<lparr>GITLAB_ADDR = '':'', GITLAB_TOKEN = ''glpat-1'',
      NewClient = (\<lambda>token baseUrl. if baseUrl = '':'' then Inl (LibraryError ''missing protocol scheme'')
                                      else Inr \<lparr>client_token = token, client_baseURL = baseUrl\<rparr>),
      Projects_ListProjects = (\<lambda>conn opt. Inr ([] :: string list, \<lparr>NextPage = 0\<rparr>)),
      Issues_ListIssues = (\<lambda>conn opt. Inr ([] :: string list, \<lparr>NextPage = 0\<rparr>)),
      Issues_ListProjectIssues = (\<lambda>conn pid opt. Inr ([], \<lparr>NextPage = 0\<rparr>))\<rparr>
     \<lparr>Connection = \<lparr>BaseUrl = None, Token = None\<rparr>, OptionalKeyColumnQuals = Map.empty\<rparr> =
   Inl (LibraryError ''missing protocol scheme'')"
  by (simp add: connect_def spec_resolved_base_address_def spec_resolved_token_def)

text \<open>
  Where the connection config has a base address, \<open>isGitlabCloud\<close> agrees with the
  resolved base address.
\<close>

lemma isGitlabCloud_config_address:
  "BaseUrl (Connection d) = Some u \<Longrightarrow>
     isGitlabCloud d = (spec_resolved_base_address e d = GitlabCloudApiUrl)"
  by (simp add: isGitlabCloud_def spec_resolved_base_address_def)

text \<open>
  C2 says that \<open>isGitlabCloud\<close> holds exactly when the resolved base address, the
  config's when present and the value of \<open>GITLAB_ADDR\<close> otherwise, is the hosted
  endpoint. The code looks at the config only: with no base address in the config and the
  hosted endpoint in \<open>GITLAB_ADDR\<close>, the resolved base address is the hosted endpoint,
  \<open>connect\<close> builds a client for it, and \<open>isGitlabCloud\<close> is false.
\<close>

theorem isGitlabCloud_environment_address:
  "spec_resolved_base_address (example_environment GitlabCloudApiUrl) (example_query Map.empty) =
     GitlabCloudApiUrl \<and>
   isGitlabCloud (example_query Map.empty) = False \<and>
   connect (example_environment GitlabCloudApiUrl) (example_query Map.empty) =
     Inr \<lparr>client_token = ''glpat-1'', client_baseURL = GitlabCloudApiUrl\<rparr>"
  by (simp add: spec_resolved_base_address_def isGitlabCloud_def connect_def
      example_environment_def example_query_def exampleNewClient_def GitlabCloudApiUrl_def)

section \<open>Theorems: predicate translation\<close>

text \<open>
  C7. For every predicate map the issue translator sets the assignee-username filter from
  the \<open>assignee\<close> predicate, the assignee-id filter from \<open>assignee_id\<close>, the author-id
  filter from \<open>author_id\<close>, the confidential filter from \<open>confidential\<close> and the search
  filter from \<open>search_string\<close>, each when that predicate is present and left as it was
  otherwise; scope, page and page size are left as they were; and an \<open>author\<close>
  predicate changes nothing. The translator returns options only, so it has no error.
\<close>

theorem addOptionalIssueQuals_fields:
  "AssigneeUsername (addOptionalIssueQuals opts q) =
     (case q ''assignee'' of None \<Rightarrow> AssigneeUsername opts | Some v \<Rightarrow> Some (GetStringValue v)) \<and>
   AssigneeID (addOptionalIssueQuals opts q) =
     (case q ''assignee_id'' of None \<Rightarrow> AssigneeID opts | Some v \<Rightarrow> Some (GetInt64Value v)) \<and>
   AuthorID (addOptionalIssueQuals opts q) =
     (case q ''author_id'' of None \<Rightarrow> AuthorID opts | Some v \<Rightarrow> Some (GetInt64Value v)) \<and>
   Confidential (addOptionalIssueQuals opts q) =
     (case q ''confidential'' of None \<Rightarrow> Confidential opts | Some v \<Rightarrow> Some (GetBoolValue v)) \<and>
   Search (addOptionalIssueQuals opts q) =
     (case q ''search_string'' of None \<Rightarrow> Search opts | Some v \<Rightarrow> Some (GetStringValue v)) \<and>
   Scope (addOptionalIssueQuals opts q) = Scope opts \<and>
   Page (addOptionalIssueQuals opts q) = Page opts \<and>
   PerPage (addOptionalIssueQuals opts q) = PerPage opts \<and>
   addOptionalIssueQuals opts (q(''author'' := a)) = addOptionalIssueQuals opts q"
  by (simp add: addOptionalIssueQuals_def Let_def split: option.splits)

section \<open>Theorems: list handlers\<close>

lemma fold_StreamListItem:
  "fold StreamListItem items s = s\<lparr>sink := sink s @ items\<rparr>"
  by (induction items arbitrary: s) (simp_all add: StreamListItem_def)

text \<open>
  Pagination of \<open>listProjects\<close> and \<open>listAllIssues\<close>: when the endpoint serves a finite
  run of pages to the loop and there is fuel for each, the handler returns \<open>(nil, nil)\<close>
  after one call for each page, the first with the options it started from (for
  \<open>listProjects\<close> page 1 with page size 50) and each with that page size, and has
  streamed the items of all pages in order.
\<close>

lemma requested_length: "length (requested opt pages) = length pages"
  by (induction pages arbitrary: opt) auto

lemma requested_PerPage: "r \<in> set (requested opt pages) \<Longrightarrow> PerPage r = PerPage opt"
  by (induction pages arbitrary: opt) auto

lemma listProjects_loop_pages:
  "served (Projects_ListProjects e conn) opt pages \<Longrightarrow> length pages \<le> fuel \<Longrightarrow>
     listProjects_loop fuel e conn opt s =
       (Some (Inr Nil),
        s\<lparr>calls := calls s @ map ListProjectsCall (requested opt pages),
          sink := sink s @ concat (map fst pages)\<rparr>)"
proof (induction pages arbitrary: fuel opt s)
  case Nil
  then show ?case by simp
next
  case (Cons page rest)
  obtain items nxt where page: "page = (items, nxt)" by (cases page)
  obtain fuel' where fuel: "fuel = Suc fuel'" "length rest \<le> fuel'"
    using Cons.prems(2) by (cases fuel) simp_all
  have fetch: "Projects_ListProjects e conn opt = Inr (items, \<lparr>NextPage = nxt\<rparr>)"
    using Cons.prems(1) page by simp
  show ?case
  proof (cases "rest = []")
    case True
    then have "nxt = 0" using Cons.prems(1) page by simp
    then show ?thesis
      using True page fuel fetch by (simp add: fold_StreamListItem upstreamCall_def)
  next
    case False
    then have nz: "nxt \<noteq> 0" and rest: "served (Projects_ListProjects e conn) (opt\<lparr>Page := nxt\<rparr>) rest"
      using Cons.prems(1) page by simp_all
    show ?thesis
      using page fuel fetch nz Cons.IH [OF rest fuel(2)]
      by (simp add: fold_StreamListItem upstreamCall_def)
  qed
qed

lemma listProjects_pages:
  assumes "connect e d = Inr conn"
    and "served (Projects_ListProjects e conn) \<lparr>Page = 1, PerPage = 50\<rparr> pages"
    and "length pages \<le> fuel"
  shows "listProjects fuel e d s =
       (Some (Inr Nil),
        s\<lparr>calls := calls s @ map ListProjectsCall (requested \<lparr>Page = 1, PerPage = 50\<rparr> pages),
          sink := sink s @ concat (map fst pages)\<rparr>)"
  using assms by (simp add: listProjects_def listProjects_loop_pages)

lemma listProjects_pages_calls:
  assumes "connect e d = Inr conn"
    and "served (Projects_ListProjects e conn) \<lparr>Page = 1, PerPage = 50\<rparr> pages"
    and "length pages \<le> fuel"
  shows "length (calls (snd (listProjects fuel e d s))) = length (calls s) + length pages"
    and "calls (snd (listProjects fuel e d s)) ! length (calls s) =
           ListProjectsCall \<lparr>Page = 1, PerPage = 50\<rparr>"
    and "\<forall>c \<in> set (drop (length (calls s)) (calls (snd (listProjects fuel e d s)))).
           \<exists>r. c = ListProjectsCall r \<and> PerPage r = 50"
proof -
  have ne: "pages \<noteq> []" using assms(2) by (cases pages) auto
  have r: "listProjects fuel e d s =
       (Some (Inr Nil),
        s\<lparr>calls := calls s @ map ListProjectsCall (requested \<lparr>Page = 1, PerPage = 50\<rparr> pages),
          sink := sink s @ concat (map fst pages)\<rparr>)"
    using assms by (rule listProjects_pages)
  show "length (calls (snd (listProjects fuel e d s))) = length (calls s) + length pages"
    by (simp add: r requested_length)
  obtain p ps where "pages = p # ps" using ne by (cases pages) auto
  then show "calls (snd (listProjects fuel e d s)) ! length (calls s) =
           ListProjectsCall \<lparr>Page = 1, PerPage = 50\<rparr>"
    by (cases p) (simp add: r)
  show "\<forall>c \<in> set (drop (length (calls s)) (calls (snd (listProjects fuel e d s)))).
           \<exists>r. c = ListProjectsCall r \<and> PerPage r = 50"
    using requested_PerPage [of _ "\<lparr>Page = 1, PerPage = 50\<rparr>" pages] by (auto simp: r)
qed

lemma listAllIssues_loop_pages:
  "served (Issues_ListIssues e conn) opt pages \<Longrightarrow> length pages \<le> fuel \<Longrightarrow>
     listAllIssues_loop fuel e conn opt s =
       (Some (Inr Nil),
        s\<lparr>calls := calls s @ map ListIssuesCall (requested opt pages),
          sink := sink s @ concat (map fst pages)\<rparr>)"
proof (induction pages arbitrary: fuel opt s)
  case Nil
  then show ?case by simp
next
  case (Cons page rest)
  obtain items nxt where page: "page = (items, nxt)" by (cases page)
  obtain fuel' where fuel: "fuel = Suc fuel'" "length rest \<le> fuel'"
    using Cons.prems(2) by (cases fuel) simp_all
  have fetch: "Issues_ListIssues e conn opt = Inr (items, \<lparr>NextPage = nxt\<rparr>)"
    using Cons.prems(1) page by simp
  show ?case
  proof (cases "rest = []")
    case True
    then have "nxt = 0" using Cons.prems(1) page by simp
    then show ?thesis
      using True page fuel fetch by (simp add: fold_StreamListItem upstreamCall_def)
  next
    case False
    then have nz: "nxt \<noteq> 0" and rest: "served (Issues_ListIssues e conn) (opt\<lparr>Page := nxt\<rparr>) rest"
      using Cons.prems(1) page by simp_all
    show ?thesis
      using page fuel fetch nz Cons.IH [OF rest fuel(2)]
      by (simp add: fold_StreamListItem upstreamCall_def)
  qed
qed

lemma listAllIssues_pages:
  assumes "connect e d = Inr conn"
    and "served (Issues_ListIssues e conn)
       (addOptionalIssueQuals
          \<lparr>Page = 1, PerPage = 50, Scope = Some ''all'', AssigneeUsername = None,
           AssigneeID = None, AuthorID = None, Confidential = None, Search = None\<rparr>
          (OptionalKeyColumnQuals d)) pages"
    and "length pages \<le> fuel"
  shows "listAllIssues fuel e d s =
       (Some (Inr Nil),
        s\<lparr>calls := calls s @ map ListIssuesCall
             (requested
                (addOptionalIssueQuals
                   \<lparr>Page = 1, PerPage = 50, Scope = Some ''all'', AssigneeUsername = None,
                    AssigneeID = None, AuthorID = None, Confidential = None, Search = None\<rparr>
                   (OptionalKeyColumnQuals d)) pages),
          sink := sink s @ concat (map fst pages)\<rparr>)"
  using assms by (simp add: listAllIssues_def listAllIssues_loop_pages)

lemma listAllIssues_loop_calls:
  "\<exists>cs. calls (snd (listAllIssues_loop fuel e conn opt s)) = calls s @ cs \<and>
     list_all isListIssuesCall cs"
proof (induction fuel arbitrary: opt s)
  case 0
  show ?case by simp
next
  case (Suc fuel)
  let ?s1 = "upstreamCall (ListIssuesCall opt) s"
  have one: "calls ?s1 = calls s @ [ListIssuesCall opt]"
    by (simp add: upstreamCall_def)
  have isl: "isListIssuesCall (ListIssuesCall opt)"
    by (simp add: isListIssuesCall_def)
  show ?case
  proof (cases "Issues_ListIssues e conn opt")
    case (Inl err)
    then show ?thesis using one isl by simp
  next
    case (Inr r)
    obtain issues resp where r: "r = (issues, resp)" by (cases r)
    let ?s2 = "fold StreamListItem issues ?s1"
    have two: "calls ?s2 = calls s @ [ListIssuesCall opt]"
      by (simp add: fold_StreamListItem upstreamCall_def)
    show ?thesis
    proof (cases "NextPage resp = 0")
      case True
      then show ?thesis using Inr r two isl by simp
    next
      case False
      obtain cs where cs: "calls (snd (listAllIssues_loop fuel e conn
            (opt\<lparr>Page := NextPage resp\<rparr>) ?s2)) = calls ?s2 @ cs" "list_all isListIssuesCall cs"
        using Suc.IH by blast
      have "calls (snd (listAllIssues_loop (Suc fuel) e conn opt s)) =
          calls s @ (ListIssuesCall opt # cs)"
        using Inr r False cs(1) two by simp
      moreover have "list_all isListIssuesCall (ListIssuesCall opt # cs)"
        using isl cs(2) by simp
      ultimately show ?thesis by blast
    qed
  qed
qed

lemma listAllIssues_calls:
  "\<exists>cs. calls (snd (listAllIssues fuel e d s)) = calls s @ cs \<and> list_all isListIssuesCall cs"
proof (cases "connect e d")
  case (Inl err)
  then show ?thesis by (simp add: listAllIssues_def)
next
  case (Inr conn)
  then show ?thesis
    using listAllIssues_loop_calls [of fuel e conn] by (simp add: listAllIssues_def)
qed

lemma listProjectIssues_loop_opt:
  "listProjectIssues_loop fuel e conn project_id opt s =
   listProjectIssues_loop fuel e conn project_id opt' s"
proof (induction fuel arbitrary: opt opt' s)
  case 0
  show ?case by simp
next
  case (Suc fuel)
  show ?case
    by (auto simp: Let_def split: sum.splits intro: Suc.IH)
qed

lemma listProjectIssues_loop_calls:
  "\<exists>n. calls (snd (listProjectIssues_loop fuel e conn project_id opt s)) =
     calls s @ replicate n (ListProjectIssuesCall project_id emptyListProjectIssuesOptions)"
proof (induction fuel arbitrary: opt s)
  case 0
  have "calls s = calls s @ replicate 0 (ListProjectIssuesCall project_id emptyListProjectIssuesOptions)"
    by simp
  then show ?case by (simp del: replicate.simps append_Nil2)
next
  case (Suc fuel)
  let ?c = "ListProjectIssuesCall project_id emptyListProjectIssuesOptions"
  let ?s1 = "upstreamCall ?c s"
  have one: "calls ?s1 = calls s @ replicate 1 ?c"
    by (simp add: upstreamCall_def)
  show ?case
  proof (cases "Issues_ListProjectIssues e conn project_id emptyListProjectIssuesOptions")
    case (Inl err)
    then show ?thesis using one by (auto simp: Let_def simp del: replicate.simps)
  next
    case (Inr r)
    obtain issues resp where r: "r = (issues, resp)" by (cases r)
    let ?s2 = "fold StreamListItem issues ?s1"
    have two: "calls ?s2 = calls s @ replicate 1 ?c"
      by (simp add: fold_StreamListItem upstreamCall_def)
    show ?thesis
    proof (cases "NextPage resp = 0")
      case True
      then show ?thesis using Inr r two by (auto simp: Let_def simp del: replicate.simps)
    next
      case False
      obtain n where n: "calls (snd (listProjectIssues_loop fuel e conn project_id
            (opt\<lparr>Page := NextPage resp\<rparr>) ?s2)) = calls ?s2 @ replicate n ?c"
        using Suc.IH by blast
      have "calls (snd (listProjectIssues_loop (Suc fuel) e conn project_id opt s)) =
          calls s @ replicate (Suc n) ?c"
        using Inr r False n two by (simp add: Let_def replicate_app_Cons_same)
      then show ?thesis by blast
    qed
  qed
qed

lemma listProjectIssues_loop_three_pages:
  "listProjectIssues_loop fuel (example_environment addr) conn project_id opt s =
     (None,
      s\<lparr>calls := calls s @
            replicate fuel (ListProjectIssuesCall project_id emptyListProjectIssuesOptions),
        sink := sink s @ concat (replicate fuel [''a'', ''b''])\<rparr>)"
proof (induction fuel arbitrary: opt s)
  case 0
  show ?case by simp
next
  case (Suc fuel)
  have fetch: "Issues_ListProjectIssues (example_environment addr) conn project_id
      emptyListProjectIssuesOptions = Inr ([''a'', ''b''], \<lparr>NextPage = 2\<rparr>)"
    by (simp add: example_environment_def three_pages_def emptyListProjectIssuesOptions_def)
  show ?case
    by (simp add: fetch Suc.IH fold_StreamListItem upstreamCall_def replicate_app_Cons_same
        del: replicate.simps) (simp add: replicate_app_Cons_same)
qed

text \<open>
  C3 says that every list handler starts at page 1 with page size 50, makes one call
  for each page and stops after the page that names 0 as the next. Against the upstream
  with the three pages 1 to 2, 2 to 3 and 3 to 0, \<open>listProjects\<close> does so: three calls,
  for the pages 1, 2 and 3 with page size 50, and all five items streamed. On the same
  upstream \<open>listProjectIssues\<close> does not: every call it makes carries the empty options
  (page 0, page size 0), so each answer is the first page, and whatever the fuel the
  handler is still looping, having made that many calls and streamed the first page that
  many times.
\<close>

theorem listProjectIssues_three_pages:
  "listProjectIssues fuel (example_environment ''https://gitlab.example.com'')
     (example_query [''project_id'' \<mapsto> Int64Value 7]) no_effects =
     (None,
      \<lparr>calls = replicate fuel (ListProjectIssuesCall 7 emptyListProjectIssuesOptions),
       sink = concat (replicate fuel [''a'', ''b''])\<rparr>) \<and>
   listProjects 3 (example_environment ''https://gitlab.example.com'')
     (example_query [''project_id'' \<mapsto> Int64Value 7]) no_effects =
     (Some (Inr Nil),
      \<lparr>calls = [ListProjectsCall \<lparr>Page = 1, PerPage = 50\<rparr>,
                ListProjectsCall \<lparr>Page = 2, PerPage = 50\<rparr>,
                ListProjectsCall \<lparr>Page = 3, PerPage = 50\<rparr>],
       sink = [''a'', ''b'', ''c'', ''d'', ''e'']\<rparr>)"
proof -
  have conn: "connect (example_environment ''https://gitlab.example.com'')
       (example_query [''project_id'' \<mapsto> Int64Value 7]) =
     Inr \<lparr>client_token = ''glpat-1'', client_baseURL = ''https://gitlab.example.com''\<rparr>"
    by (simp add: connect_def example_environment_def example_query_def exampleNewClient_def)
  have q: "OptionalKeyColumnQuals (example_query [''project_id'' \<mapsto> Int64Value 7]) ''project_id'' =
      Some (Int64Value 7)"
    by (simp add: example_query_def)
  have a: "listProjectIssues fuel (example_environment ''https://gitlab.example.com'')
     (example_query [''project_id'' \<mapsto> Int64Value 7]) no_effects =
     (None,
      \<lparr>calls = replicate fuel (ListProjectIssuesCall 7 emptyListProjectIssuesOptions),
       sink = concat (replicate fuel [''a'', ''b''])\<rparr>)"
    by (simp add: listProjectIssues_def conn q listProjectIssues_loop_three_pages
        GetInt64Value_def no_effects_def)
  have b: "listProjects 3 (example_environment ''https://gitlab.example.com'')
     (example_query [''project_id'' \<mapsto> Int64Value 7]) no_effects =
     (Some (Inr Nil),
      \<lparr>calls = [ListProjectsCall \<lparr>Page = 1, PerPage = 50\<rparr>,
                ListProjectsCall \<lparr>Page = 2, PerPage = 50\<rparr>,
                ListProjectsCall \<lparr>Page = 3, PerPage = 50\<rparr>],
       sink = [''a'', ''b'', ''c'', ''d'', ''e'']\<rparr>)"
    by (simp add: listProjects_def conn no_effects_def eval_nat_numeral fold_StreamListItem
        upstreamCall_def)
      (simp add: example_environment_def three_pages_def StreamListItem_def upstreamCall_def)
  show ?thesis using a b by simp
qed

text \<open>
  C4. For every predicate set, every call of the per-project path carries the project id
  of the \<open>project_id\<close> predicate and the empty options value: page 0, page size 0, no
  scope and no filter. The run is the same whatever the five translated predicates are,
  or whether they are present at all.
\<close>

theorem listProjectIssues_sends_empty_options:
  "(\<exists>n. calls (snd (listProjectIssues fuel e d s)) =
      calls s @ replicate n
        (ListProjectIssuesCall
           (case OptionalKeyColumnQuals d ''project_id'' of Some v \<Rightarrow> GetInt64Value v | None \<Rightarrow> 0)
           emptyListProjectIssuesOptions)) \<and>
   emptyListProjectIssuesOptions =
     \<lparr>Page = 0, PerPage = 0, Scope = None, AssigneeUsername = None,
      AssigneeID = None, AuthorID = None, Confidential = None, Search = None\<rparr> \<and>
   listProjectIssues fuel e
     (d\<lparr>OptionalKeyColumnQuals := (OptionalKeyColumnQuals d)
          (''assignee'' := a, ''assignee_id'' := b, ''author_id'' := c,
           ''confidential'' := f, ''search_string'' := g)\<rparr>) s =
   listProjectIssues fuel e d s"
proof -
  let ?pid = "case OptionalKeyColumnQuals d ''project_id'' of Some v \<Rightarrow> GetInt64Value v | None \<Rightarrow> 0"
  let ?c = "ListProjectIssuesCall ?pid emptyListProjectIssuesOptions"
  have nocall: "\<exists>n. calls s = calls s @ replicate n ?c"
  proof
    show "calls s = calls s @ replicate 0 ?c" by simp
  qed
  have a: "\<exists>n. calls (snd (listProjectIssues fuel e d s)) = calls s @ replicate n ?c"
  proof (cases "connect e d")
    case (Inl err)
    then show ?thesis using nocall by (simp add: listProjectIssues_def)
  next
    case (Inr conn)
    show ?thesis
    proof (cases "OptionalKeyColumnQuals d ''project_id''")
      case None
      then show ?thesis using Inr nocall by (simp add: listProjectIssues_def)
    next
      case (Some v)
      then show ?thesis
        using Inr listProjectIssues_loop_calls [of fuel e conn "GetInt64Value v"]
        by (simp add: listProjectIssues_def)
    qed
  qed
  have conn: "connect e (d\<lparr>OptionalKeyColumnQuals := q'\<rparr>) = connect e d" for q'
    by (simp add: connect_def)
  have b: "listProjectIssues fuel e
     (d\<lparr>OptionalKeyColumnQuals := (OptionalKeyColumnQuals d)
          (''assignee'' := a, ''assignee_id'' := b, ''author_id'' := c,
           ''confidential'' := f, ''search_string'' := g)\<rparr>) s =
   listProjectIssues fuel e d s"
    by (auto simp: listProjectIssues_def conn Let_def split: sum.splits option.splits
        intro: listProjectIssues_loop_opt)
  show ?thesis using a b by (simp add: emptyListProjectIssuesOptions_def)
qed

text \<open>
  The guard of \<open>listIssues\<close> as coded: when \<open>isGitlabCloud\<close> holds and none of the four
  predicates is present the handler returns the unsupported-query error and leaves calls
  and sink as they were; any one of the four predicates lets the call proceed.
\<close>

lemma listIssues_guard:
  assumes "isGitlabCloud d"
    and "OptionalKeyColumnQuals d ''assignee'' = None"
    and "OptionalKeyColumnQuals d ''assignee_id'' = None"
    and "OptionalKeyColumnQuals d ''author_id'' = None"
    and "OptionalKeyColumnQuals d ''project_id'' = None"
  shows "listIssues fuel e d s = (Some (Inl (Errorf unsupportedQueryMessage)), s)"
  using assms by (simp add: listIssues_def)

lemma listIssues_past_guard:
  assumes "OptionalKeyColumnQuals d ''assignee'' \<noteq> None \<or>
      OptionalKeyColumnQuals d ''assignee_id'' \<noteq> None \<or>
      OptionalKeyColumnQuals d ''author_id'' \<noteq> None \<or>
      OptionalKeyColumnQuals d ''project_id'' \<noteq> None"
  shows "listIssues fuel e d s =
     (if OptionalKeyColumnQuals d ''project_id'' \<noteq> None then listProjectIssues fuel e d s
      else listAllIssues fuel e d s)"
  using assms by (auto simp add: listIssues_def)

text \<open>
  C1 says that a listing against the hosted endpoint without any of the four predicates
  returns the unsupported-query error and makes no upstream call. With the hosted
  endpoint in \<open>GITLAB_ADDR\<close> and no base address in the connection config the guard does
  not fire: the handler lists the issues of the whole instance, here in three upstream
  calls against the hosted endpoint.
\<close>

theorem listIssues_environment_address_unguarded:
  "spec_resolved_base_address (example_environment GitlabCloudApiUrl) (example_query Map.empty) =
     GitlabCloudApiUrl \<and>
   listIssues 3 (example_environment GitlabCloudApiUrl) (example_query Map.empty) no_effects =
     (Some (Inr Nil),
      \<lparr>calls =
         [ListIssuesCall \<lparr>Page = 1, PerPage = 50, Scope = Some ''all'', AssigneeUsername = None,
            AssigneeID = None, AuthorID = None, Confidential = None, Search = None\<rparr>,
          ListIssuesCall \<lparr>Page = 2, PerPage = 50, Scope = Some ''all'', AssigneeUsername = None,
            AssigneeID = None, AuthorID = None, Confidential = None, Search = None\<rparr>,
          ListIssuesCall \<lparr>Page = 3, PerPage = 50, Scope = Some ''all'', AssigneeUsername = None,
            AssigneeID = None, AuthorID = None, Confidential = None, Search = None\<rparr>],
       sink = [''a'', ''b'', ''c'', ''d'', ''e'']\<rparr>)"
  by (simp add: spec_resolved_base_address_def isGitlabCloud_def connect_def listIssues_def
      listAllIssues_def addOptionalIssueQuals_def fold_StreamListItem upstreamCall_def
      example_environment_def example_query_def exampleNewClient_def GitlabCloudApiUrl_def
      three_pages_def no_effects_def eval_nat_numeral)

text \<open>
  C5. A call with a \<open>project_id\<close> predicate always passes the guard; it is handled by
  \<open>listProjectIssues\<close>, and every upstream call it makes is the per-project list call for
  the project id of the predicate. A call without a \<open>project_id\<close> predicate that passes the
  guard (one of the other three predicates is present, or \<open>isGitlabCloud\<close> does not hold) is
  handled by \<open>listAllIssues\<close>, and every upstream call it makes is the instance-wide list
  call.
\<close>

theorem listIssues_routing:
  "(OptionalKeyColumnQuals d ''project_id'' = Some v \<longrightarrow>
      listIssues fuel e d s = listProjectIssues fuel e d s \<and>
      (\<exists>n. calls (snd (listIssues fuel e d s)) =
         calls s @ replicate n
           (ListProjectIssuesCall (GetInt64Value v) emptyListProjectIssuesOptions))) \<and>
   (OptionalKeyColumnQuals d ''project_id'' = None \<and>
    \<not> (OptionalKeyColumnQuals d ''assignee'' = None \<and>
       OptionalKeyColumnQuals d ''assignee_id'' = None \<and>
       OptionalKeyColumnQuals d ''author_id'' = None \<and> isGitlabCloud d) \<longrightarrow>
      listIssues fuel e d s = listAllIssues fuel e d s \<and>
      (\<exists>cs. calls (snd (listIssues fuel e d s)) = calls s @ cs \<and>
         list_all isListIssuesCall cs))"
proof -
  have a: "listIssues fuel e d s = listProjectIssues fuel e d s \<and>
      (\<exists>n. calls (snd (listIssues fuel e d s)) =
         calls s @ replicate n
           (ListProjectIssuesCall (GetInt64Value v) emptyListProjectIssuesOptions))"
    if v: "OptionalKeyColumnQuals d ''project_id'' = Some v"
  proof -
    have eq: "listIssues fuel e d s = listProjectIssues fuel e d s"
      using v by (simp add: listIssues_def)
    have "\<exists>n. calls (snd (listProjectIssues fuel e d s)) =
         calls s @ replicate n
           (ListProjectIssuesCall (GetInt64Value v) emptyListProjectIssuesOptions)"
    proof (cases "connect e d")
      case (Inl err)
      have "calls s = calls s @ replicate 0
           (ListProjectIssuesCall (GetInt64Value v) emptyListProjectIssuesOptions)" by simp
      then show ?thesis using Inl by (simp add: listProjectIssues_def del: replicate.simps)
    next
      case (Inr conn)
      then show ?thesis
        using v listProjectIssues_loop_calls [of fuel e conn "GetInt64Value v"]
        by (simp add: listProjectIssues_def)
    qed
    then show ?thesis using eq by simp
  qed
  have b: "listIssues fuel e d s = listAllIssues fuel e d s \<and>
      (\<exists>cs. calls (snd (listIssues fuel e d s)) = calls s @ cs \<and>
         list_all isListIssuesCall cs)"
    if n: "OptionalKeyColumnQuals d ''project_id'' = None"
      and g: "\<not> (OptionalKeyColumnQuals d ''assignee'' = None \<and>
       OptionalKeyColumnQuals d ''assignee_id'' = None \<and>
       OptionalKeyColumnQuals d ''author_id'' = None \<and> isGitlabCloud d)"
  proof -
    have eq: "listIssues fuel e d s = listAllIssues fuel e d s"
      using n g by (auto simp add: listIssues_def)
    show ?thesis using listAllIssues_calls [of fuel e d s] by (simp add: eq)
  qed
  show ?thesis using a b by blast
qed

theorem listIssues_routing_witness:
  "OptionalKeyColumnQuals
     \<lparr>Connection = \<lparr>BaseUrl = Some GitlabCloudApiUrl, Token = Some ''glpat-2''\<rparr>,
      OptionalKeyColumnQuals = [''project_id'' \<mapsto> Int64Value 7]\<rparr> ''project_id'' =
     Some (Int64Value 7) \<and>
   listIssues 2 (example_environment [])
     \<lparr>Connection = \<lparr>BaseUrl = Some GitlabCloudApiUrl, Token = Some ''glpat-2''\<rparr>,
      OptionalKeyColumnQuals = [''project_id'' \<mapsto> Int64Value 7]\<rparr> no_effects =
   listProjectIssues 2 (example_environment [])
     \<lparr>Connection = \<lparr>BaseUrl = Some GitlabCloudApiUrl, Token = Some ''glpat-2''\<rparr>,
      OptionalKeyColumnQuals = [''project_id'' \<mapsto> Int64Value 7]\<rparr> no_effects \<and>
   isGitlabCloud
     \<lparr>Connection = \<lparr>BaseUrl = Some GitlabCloudApiUrl, Token = Some ''glpat-2''\<rparr>,
      OptionalKeyColumnQuals = [''assignee'' \<mapsto> StringValue ''ada'']\<rparr> \<and>
   listIssues 2 (example_environment [])
     \<lparr>Connection = \<lparr>BaseUrl = Some GitlabCloudApiUrl, Token = Some ''glpat-2''\<rparr>,
      OptionalKeyColumnQuals = [''assignee'' \<mapsto> StringValue ''ada'']\<rparr> no_effects =
   listAllIssues 2 (example_environment [])
     \<lparr>Connection = \<lparr>BaseUrl = Some GitlabCloudApiUrl, Token = Some ''glpat-2''\<rparr>,
      OptionalKeyColumnQuals = [''assignee'' \<mapsto> StringValue ''ada'']\<rparr> no_effects"
  using listIssues_routing
      [of "\<lparr>Connection = \<lparr>BaseUrl = Some GitlabCloudApiUrl, Token = Some ''glpat-2''\<rparr>,
            OptionalKeyColumnQuals = [''project_id'' \<mapsto> Int64Value 7]\<rparr>" "Int64Value 7"
          2 "example_environment []" no_effects]
    listIssues_routing
      [of "\<lparr>Connection = \<lparr>BaseUrl = Some GitlabCloudApiUrl, Token = Some ''glpat-2''\<rparr>,
            OptionalKeyColumnQuals = [''assignee'' \<mapsto> StringValue ''ada'']\<rparr>" "Int64Value 7"
          2 "example_environment []" no_effects]
  by (simp add: isGitlabCloud_def)

end
